theory Spec2Isabelle
  imports Complex_Main
begin

section \<open>Numeric data\<close>

text \<open>
  The filter works on fixed-size Eigen vectors and matrices of doubles. A vector is
  modelled as the map from its row index to the entry, a matrix as the map from row and
  column index to the entry; the sizes are the template parameters of the class and are
  passed where an operation needs them (the inner dimension of a product). Entries at
  indices beyond the size of an object carry no meaning; statements about single
  entries are made for indices within the size. Doubles are idealised as real numbers:
  rounding, infinities and NaN are outside this model.
\<close>

type_synonym vec = "nat \<Rightarrow> real"
type_synonym mat = "nat \<Rightarrow> nat \<Rightarrow> real"

definition vec_zero :: vec where
  "vec_zero = (\<lambda>r. 0)"

definition mat_zero :: mat where
  "mat_zero = (\<lambda>r c. 0)"

definition vec_add :: "vec \<Rightarrow> vec \<Rightarrow> vec" where
  "vec_add v w = (\<lambda>r. v r + w r)"

definition vec_sub :: "vec \<Rightarrow> vec \<Rightarrow> vec" where
  "vec_sub v w = (\<lambda>r. v r - w r)"

definition scal_vec :: "real \<Rightarrow> vec \<Rightarrow> vec" where
  "scal_vec a v = (\<lambda>r. a * v r)"

definition mat_add :: "mat \<Rightarrow> mat \<Rightarrow> mat" where
  "mat_add A B = (\<lambda>r c. A r c + B r c)"

definition mat_sub :: "mat \<Rightarrow> mat \<Rightarrow> mat" where
  "mat_sub A B = (\<lambda>r c. A r c - B r c)"

definition transpose_mat :: "mat \<Rightarrow> mat" where
  "transpose_mat A = (\<lambda>r c. A c r)"

text \<open>Product of a matrix with \<open>n\<close> columns and a matrix with \<open>n\<close> rows.\<close>

definition mat_mul :: "nat \<Rightarrow> mat \<Rightarrow> mat \<Rightarrow> mat" where
  "mat_mul n A B = (\<lambda>r c. \<Sum>k<n. A r k * B k c)"

definition mat_vec :: "nat \<Rightarrow> mat \<Rightarrow> vec \<Rightarrow> vec" where
  "mat_vec n A v = (\<lambda>r. \<Sum>k<n. A r k * v k)"

text \<open>Column vector times row vector: \<open>v * w.transpose()\<close>.\<close>

definition outer :: "vec \<Rightarrow> vec \<Rightarrow> mat" where
  "outer v w = (\<lambda>r c. v r * w c)"

text \<open>\<open>M.block<Rows, 1>(0, i)\<close>, read and written.\<close>

definition col :: "mat \<Rightarrow> nat \<Rightarrow> vec" where
  "col M i = (\<lambda>r. M r i)"

definition set_col :: "mat \<Rightarrow> nat \<Rightarrow> vec \<Rightarrow> mat" where
  "set_col M i v = (\<lambda>r c. if c = i then v r else M r c)"

definition trace :: "nat \<Rightarrow> mat \<Rightarrow> real" where
  "trace n A = (\<Sum>k<n. A k k)"

definition symmetric :: "nat \<Rightarrow> mat \<Rightarrow> bool" where
  "symmetric n A = (\<forall>r<n. \<forall>c<n. A r c = A c r)"

section \<open>Collaborators\<close>

text \<open>
  The sigma-point generator, the unscented transform, the numerical Jacobian, the
  integrator, the discretisation routines and Eigen's LDLT solver are included by the
  header but defined elsewhere. They are parameters of the model: the member
  \<open>m_pts\<close> is a record of the generator's operations, the free functions are the fields
  of an environment together with the template parameters \<open>States\<close>, \<open>Inputs\<close> and
  \<open>Outputs\<close>. \<open>UnscentedTransform\<close> and the solver are instantiated per call in the
  source (with \<open>Rows\<close>), so they take that size as an argument.
\<close>

record MerweScaledSigmaPoints =
  SigmaPoints :: "vec \<Rightarrow> mat \<Rightarrow> mat"
  Wm :: vec
  Wc :: vec
  NumSigmas :: nat

record ukf_env =
  States :: nat
  Inputs :: nat
  Outputs :: nat
  pts_default :: MerweScaledSigmaPoints
  DiscretizeR :: "mat \<Rightarrow> real \<Rightarrow> mat"
  NumericalJacobianX :: "(vec \<Rightarrow> vec \<Rightarrow> vec) \<Rightarrow> vec \<Rightarrow> vec \<Rightarrow> mat"
  DiscretizeAQTaylor :: "mat \<Rightarrow> mat \<Rightarrow> real \<Rightarrow> mat \<times> mat"
  RungeKutta :: "(vec \<Rightarrow> vec \<Rightarrow> vec) \<Rightarrow> vec \<Rightarrow> vec \<Rightarrow> real \<Rightarrow> vec"
  UnscentedTransform :: "nat \<Rightarrow> mat \<Rightarrow> vec \<Rightarrow> vec \<Rightarrow> vec \<times> mat"
  ldlt_solve :: "nat \<Rightarrow> mat \<Rightarrow> mat \<Rightarrow> mat"

text \<open>
  Modelled from the spec: \<open>MakeCovMatrix\<close> of \<open>frc/StateSpaceUtil.h\<close> is not part of the
  header. The specification says that construction builds the continuous noise
  matrices "as diagonal covariance matrices from the squared standard deviations".
\<close>

definition MakeCovMatrix :: "real list \<Rightarrow> mat" where
  "MakeCovMatrix stdDevs =
     (\<lambda>r c. if r = c \<and> r < length stdDevs then (stdDevs ! r) * (stdDevs ! r) else 0)"

section \<open>The filter\<close>

record UnscentedKalmanFilter =
  m_f :: "vec \<Rightarrow> vec \<Rightarrow> vec"
  m_h :: "vec \<Rightarrow> vec \<Rightarrow> vec"
  m_xHat :: vec
  m_P :: mat
  m_contQ :: mat
  m_contR :: mat
  m_discR :: mat
  m_sigmasF :: mat
  m_pts :: MerweScaledSigmaPoints

definition SetP :: "mat \<Rightarrow> UnscentedKalmanFilter \<Rightarrow> UnscentedKalmanFilter" where
  "SetP P s = s\<lparr>m_P := P\<rparr>"

definition SetXhat :: "vec \<Rightarrow> UnscentedKalmanFilter \<Rightarrow> UnscentedKalmanFilter" where
  "SetXhat xHat s = s\<lparr>m_xHat := xHat\<rparr>"

definition SetXhat_at :: "nat \<Rightarrow> real \<Rightarrow> UnscentedKalmanFilter \<Rightarrow> UnscentedKalmanFilter" where
  "SetXhat_at i v s = s\<lparr>m_xHat := (m_xHat s)(i := v)\<rparr>"

definition Reset :: "UnscentedKalmanFilter \<Rightarrow> UnscentedKalmanFilter" where
  "Reset s = s\<lparr>m_xHat := vec_zero, m_P := mat_zero, m_sigmasF := mat_zero\<rparr>"

text \<open>
  The constructor stores \<open>f\<close> and \<open>h\<close>, builds the continuous noise matrices,
  discretises the measurement noise at the nominal \<open>dt\<close> and calls \<open>Reset\<close>. The three
  members that \<open>Reset\<close> overwrites have no value before that call in the source; here they
  start at zero.
\<close>

definition construct ::
  "ukf_env \<Rightarrow> (vec \<Rightarrow> vec \<Rightarrow> vec) \<Rightarrow> (vec \<Rightarrow> vec \<Rightarrow> vec) \<Rightarrow> real list \<Rightarrow> real list \<Rightarrow> real
     \<Rightarrow> UnscentedKalmanFilter" where
  "construct env f h stateStdDevs measurementStdDevs dt =
     (let contQ = MakeCovMatrix stateStdDevs;
          contR = MakeCovMatrix measurementStdDevs;
          discR = DiscretizeR env contR dt
      in Reset \<lparr>m_f = f, m_h = h, m_xHat = vec_zero, m_P = mat_zero, m_contQ = contQ,
                m_contR = contR, m_discR = discR, m_sigmasF = mat_zero,
                m_pts = pts_default env\<rparr>)"

subsection \<open>Predict\<close>

text \<open>
  The loop of \<open>Predict\<close>: for \<open>i\<close> from its current value up to \<open>n = NumSigmas()\<close>,
  column \<open>i\<close> of \<open>m_sigmasF\<close> becomes the integrated column \<open>i\<close> of \<open>sigmas\<close>.
\<close>

function Predict_loop ::
  "ukf_env \<Rightarrow> (vec \<Rightarrow> vec \<Rightarrow> vec) \<Rightarrow> mat \<Rightarrow> vec \<Rightarrow> real \<Rightarrow> nat \<Rightarrow> nat \<Rightarrow> mat \<Rightarrow> mat" where
  "Predict_loop env f sigmas u dt n i sigmasF =
     (if i < n
      then Predict_loop env f sigmas u dt n (Suc i)
             (set_col sigmasF i (RungeKutta env f (col sigmas i) u dt))
      else sigmasF)"
  by pat_completeness auto
termination
  by (relation "measure (\<lambda>(env, f, sigmas, u, dt, n, i, sigmasF). n - i)") auto

declare Predict_loop.simps [simp del]

definition Predict :: "ukf_env \<Rightarrow> vec \<Rightarrow> real \<Rightarrow> UnscentedKalmanFilter \<Rightarrow> UnscentedKalmanFilter" where
  "Predict env u dt s =
     (let contA = NumericalJacobianX env (m_f s) (m_xHat s) u;
          (discA, discQ) = DiscretizeAQTaylor env contA (m_contQ s) dt;
          sigmas = SigmaPoints (m_pts s) (m_xHat s) (m_P s);
          sigmasF = Predict_loop env (m_f s) sigmas u dt (NumSigmas (m_pts s)) 0 (m_sigmasF s);
          ret = UnscentedTransform env (States env) sigmasF (Wm (m_pts s)) (Wc (m_pts s))
      in s\<lparr>m_sigmasF := sigmasF,
            m_xHat := fst ret,
            m_P := mat_add (snd ret) discQ,
            m_discR := DiscretizeR env (m_contR s) dt\<rparr>)"

subsection \<open>Correct\<close>

text \<open>
  The first loop of \<open>Correct\<close> fills the local matrix \<open>sigmasH\<close> column by column with
  the images under \<open>h\<close> of the columns of \<open>sigmas\<close>. The local is declared without a
  value in the source and every column is written; here it starts at zero.
\<close>

function sigmasH_loop ::
  "(vec \<Rightarrow> vec \<Rightarrow> vec) \<Rightarrow> mat \<Rightarrow> vec \<Rightarrow> nat \<Rightarrow> nat \<Rightarrow> mat \<Rightarrow> mat" where
  "sigmasH_loop h sigmas u n i sigmasH =
     (if i < n
      then sigmasH_loop h sigmas u n (Suc i) (set_col sigmasH i (h (col sigmas i) u))
      else sigmasH)"
  by pat_completeness auto
termination
  by (relation "measure (\<lambda>(h, sigmas, u, n, i, sigmasH). n - i)") auto

declare sigmasH_loop.simps [simp del]

text \<open>The second loop accumulates the cross covariance.\<close>

function Pxy_loop ::
  "vec \<Rightarrow> mat \<Rightarrow> vec \<Rightarrow> mat \<Rightarrow> vec \<Rightarrow> nat \<Rightarrow> nat \<Rightarrow> mat \<Rightarrow> mat" where
  "Pxy_loop wc sigmasF xHat sigmasH yHat n i Pxy =
     (if i < n
      then Pxy_loop wc sigmasF xHat sigmasH yHat n (Suc i)
             (mat_add Pxy
                (outer (scal_vec (wc i) (vec_sub (col sigmasF i) xHat))
                       (vec_sub (col sigmasH i) yHat)))
      else Pxy)"
  by pat_completeness auto
termination
  by (relation "measure (\<lambda>(wc, sigmasF, xHat, sigmasH, yHat, n, i, Pxy). n - i)") auto

declare Pxy_loop.simps [simp del]

text \<open>The locals of \<open>Correct<Rows>\<close>, in the order in which the source computes them.\<close>

definition Correct_sigmasH ::
  "vec \<Rightarrow> (vec \<Rightarrow> vec \<Rightarrow> vec) \<Rightarrow> UnscentedKalmanFilter \<Rightarrow> mat" where
  "Correct_sigmasH u h s =
     (let sigmas = SigmaPoints (m_pts s) (m_xHat s) (m_P s)
      in sigmasH_loop h sigmas u (NumSigmas (m_pts s)) 0 mat_zero)"

definition Correct_yHat ::
  "ukf_env \<Rightarrow> nat \<Rightarrow> vec \<Rightarrow> (vec \<Rightarrow> vec \<Rightarrow> vec) \<Rightarrow> UnscentedKalmanFilter \<Rightarrow> vec" where
  "Correct_yHat env Rows u h s =
     fst (UnscentedTransform env Rows (Correct_sigmasH u h s) (Wm (m_pts s)) (Wc (m_pts s)))"

definition Correct_Py ::
  "ukf_env \<Rightarrow> nat \<Rightarrow> vec \<Rightarrow> (vec \<Rightarrow> vec \<Rightarrow> vec) \<Rightarrow> mat \<Rightarrow> UnscentedKalmanFilter \<Rightarrow> mat" where
  "Correct_Py env Rows u h R s =
     mat_add
       (snd (UnscentedTransform env Rows (Correct_sigmasH u h s) (Wm (m_pts s)) (Wc (m_pts s))))
       R"

definition Correct_Pxy ::
  "ukf_env \<Rightarrow> nat \<Rightarrow> vec \<Rightarrow> (vec \<Rightarrow> vec \<Rightarrow> vec) \<Rightarrow> UnscentedKalmanFilter \<Rightarrow> mat" where
  "Correct_Pxy env Rows u h s =
     Pxy_loop (Wc (m_pts s)) (m_sigmasF s) (m_xHat s) (Correct_sigmasH u h s)
       (Correct_yHat env Rows u h s) (NumSigmas (m_pts s)) 0 mat_zero"

definition Correct_K ::
  "ukf_env \<Rightarrow> nat \<Rightarrow> vec \<Rightarrow> (vec \<Rightarrow> vec \<Rightarrow> vec) \<Rightarrow> mat \<Rightarrow> UnscentedKalmanFilter \<Rightarrow> mat" where
  "Correct_K env Rows u h R s =
     transpose_mat
       (ldlt_solve env Rows (transpose_mat (Correct_Py env Rows u h R s))
          (transpose_mat (Correct_Pxy env Rows u h s)))"

text \<open>The generic form \<open>Correct<Rows>(u, y, h, R)\<close>.\<close>

definition Correct_with ::
  "ukf_env \<Rightarrow> nat \<Rightarrow> vec \<Rightarrow> vec \<Rightarrow> (vec \<Rightarrow> vec \<Rightarrow> vec) \<Rightarrow> mat \<Rightarrow> UnscentedKalmanFilter
     \<Rightarrow> UnscentedKalmanFilter" where
  "Correct_with env Rows u y h R s =
     (let yHat = Correct_yHat env Rows u h s;
          Py = Correct_Py env Rows u h R s;
          K = Correct_K env Rows u h R s
      in s\<lparr>m_xHat := vec_add (m_xHat s) (mat_vec Rows K (vec_sub y yHat)),
            m_P := mat_sub (m_P s) (mat_mul Rows (mat_mul Rows K Py) (transpose_mat K))\<rparr>)"

text \<open>The two-argument form \<open>Correct(u, y)\<close>.\<close>

definition Correct :: "ukf_env \<Rightarrow> vec \<Rightarrow> vec \<Rightarrow> UnscentedKalmanFilter \<Rightarrow> UnscentedKalmanFilter" where
  "Correct env u y s = Correct_with env (Outputs env) u y (m_h s) (m_discR s) s"

subsection \<open>Operation histories\<close>

datatype ukf_op =
    Op_Predict vec real
  | Op_Correct vec vec
  | Op_Correct_with nat vec vec "vec \<Rightarrow> vec \<Rightarrow> vec" mat
  | Op_SetP mat
  | Op_SetXhat vec
  | Op_SetXhat_at nat real
  | Op_Reset

fun apply_op :: "ukf_env \<Rightarrow> UnscentedKalmanFilter \<Rightarrow> ukf_op \<Rightarrow> UnscentedKalmanFilter" where
  "apply_op env s (Op_Predict u dt) = Predict env u dt s"
| "apply_op env s (Op_Correct u y) = Correct env u y s"
| "apply_op env s (Op_Correct_with Rows u y h R) = Correct_with env Rows u y h R s"
| "apply_op env s (Op_SetP P) = SetP P s"
| "apply_op env s (Op_SetXhat xHat) = SetXhat xHat s"
| "apply_op env s (Op_SetXhat_at i v) = SetXhat_at i v s"
| "apply_op env s Op_Reset = Reset s"

definition run :: "ukf_env \<Rightarrow> ukf_op list \<Rightarrow> UnscentedKalmanFilter \<Rightarrow> UnscentedKalmanFilter" where
  "run env ops s = foldl (apply_op env) s ops"

text \<open>
  The time step at which \<open>m_discR\<close> was last discretised: that of the most recent
  \<open>Predict\<close> of a history, or the constructor's nominal one.
\<close>

fun last_dt :: "real \<Rightarrow> ukf_op list \<Rightarrow> real" where
  "last_dt dt0 [] = dt0"
| "last_dt dt0 (Op_Predict u dt # ops) = last_dt dt ops"
| "last_dt dt0 (_ # ops) = last_dt dt0 ops"

text \<open>
  Histories made of \<open>Predict\<close> and \<open>Correct\<close> calls only, in which every measurement
  noise matrix handed to the generic \<open>Correct\<close> is symmetric.
\<close>

fun Predict_Correct_op :: "ukf_op \<Rightarrow> bool" where
  "Predict_Correct_op (Op_Predict u dt) = True"
| "Predict_Correct_op (Op_Correct u y) = True"
| "Predict_Correct_op (Op_Correct_with Rows u y h R) = symmetric Rows R"
| "Predict_Correct_op _ = False"

text \<open>Operations other than \<open>Predict\<close>.\<close>

fun Predict_free :: "ukf_op \<Rightarrow> bool" where
  "Predict_free (Op_Predict u dt) = False"
| "Predict_free _ = True"

section \<open>Notions used to state the properties\<close>


definition mat_identity :: mat where
  "mat_identity = (\<lambda>r c. if r = c then 1 else 0)"


section \<open>A scalar instance of the collaborators\<close>

text \<open>
  The properties below hold for every environment. To evaluate the filter on concrete
  numbers, the following environment gives each collaborator a definite meaning for
  \<open>States = Inputs = Outputs = 1\<close>.
\<close>

text \<open>
  Modelled from the spec: \<open>UnscentedTransform\<close> is not part of the header. The
  specification describes it as "the weighted-mean/weighted-covariance reduction" that
  "reduces a weighted set of transformed sigma points to a mean and covariance": the
  mean is the \<open>Wm\<close>-weighted sum of the \<open>n\<close> columns, the covariance the \<open>Wc\<close>-weighted sum
  of the outer products of the deviations from that mean.
\<close>

definition ut_weighted :: "nat \<Rightarrow> mat \<Rightarrow> vec \<Rightarrow> vec \<Rightarrow> vec \<times> mat" where
  "ut_weighted n sigmas wm wc =
     (let x = (\<lambda>r. \<Sum>i<n. wm i * sigmas r i)
      in (x, \<lambda>r c. \<Sum>i<n. wc i * (sigmas r i - x r) * (sigmas c i - x c)))"

text \<open>
  Modelled from the spec: the sigma-point generator is not part of the header. The
  specification asks for "a deterministic set of 2*States+1 sample vectors capturing
  the mean and covariance of a distribution" with \<open>\<Sum> Wm(i) = 1\<close>. For one state the
  points \<open>x\<close>, \<open>x + sqrt P\<close>, \<open>x - sqrt P\<close> with weights \<open>0\<close>, \<open>1/2\<close>, \<open>1/2\<close> are such a
  set.
\<close>

definition sigma_points_scalar :: MerweScaledSigmaPoints where
  "sigma_points_scalar =
     \<lparr>SigmaPoints = (\<lambda>x P r i. if i = 0 then x r
                               else if i = 1 then x r + sqrt (P r r)
                               else x r - sqrt (P r r)),
      Wm = (\<lambda>i. if i = 0 then 0 else 1 / 2),
      Wc = (\<lambda>i. if i = 0 then 0 else 1 / 2),
      NumSigmas = 3\<rparr>"

text \<open>
  Modelled from the spec: \<open>RungeKutta\<close> is not part of the header. The specification
  describes a "fixed-step ODE integration" returning "x advanced by one step"; this is
  one step of the classical fourth-order Runge-Kutta scheme.
\<close>

definition rk4 :: "(vec \<Rightarrow> vec \<Rightarrow> vec) \<Rightarrow> vec \<Rightarrow> vec \<Rightarrow> real \<Rightarrow> vec" where
  "rk4 f x u dt =
     (let k1 = f x u;
          k2 = f (vec_add x (scal_vec (dt / 2) k1)) u;
          k3 = f (vec_add x (scal_vec (dt / 2) k2)) u;
          k4 = f (vec_add x (scal_vec dt k3)) u
      in vec_add x
           (scal_vec (dt / 6)
              (vec_add (vec_add k1 (scal_vec 2 k2)) (vec_add (scal_vec 2 k3) k4))))"

text \<open>
  Modelled from the spec: \<open>NumericalJacobianX\<close> is not part of the header. The
  specification describes a "finite-difference Jacobian" giving \<open>\<partial>f/\<partial>x\<close> at \<open>(x, u)\<close>;
  this is the central difference with step \<open>1/100000\<close>.
\<close>

definition jacobian_central :: "(vec \<Rightarrow> vec \<Rightarrow> vec) \<Rightarrow> vec \<Rightarrow> vec \<Rightarrow> mat" where
  "jacobian_central f x u =
     (\<lambda>r c. (f (x(c := x c + 1 / 100000)) u r - f (x(c := x c - 1 / 100000)) u r)
             / (2 / 100000))"

text \<open>
  Modelled from the spec: \<open>DiscretizeAQTaylor\<close> is not part of the header. The
  specification describes it as mapping \<open>(A, Qc, dt)\<close> to "(discrete transition,
  discrete process noise)"; this is the approximation of first order in \<open>dt\<close>.
\<close>

definition discretize_first_order :: "mat \<Rightarrow> mat \<Rightarrow> real \<Rightarrow> mat \<times> mat" where
  "discretize_first_order contA contQ dt =
     (\<lambda>r c. mat_identity r c + contA r c * dt, \<lambda>r c. contQ r c * dt)"

text \<open>
  Modelled from the spec: \<open>DiscretizeR\<close> is not part of the header. The specification's
  scalar scenario uses "a discretization stub returning Rd=Rc unchanged".
\<close>

definition discretize_R_stub :: "mat \<Rightarrow> real \<Rightarrow> mat" where
  "discretize_R_stub contR dt = contR"

text \<open>
  Modelled from the spec: Eigen's \<open>ldlt().solve\<close> is not part of the header. The
  specification describes "a numerically stable symmetric solve" of \<open>A X = B\<close>; for a
  one by one matrix \<open>A\<close> that is the division of \<open>B\<close> by its entry.
\<close>

definition solve_scalar :: "nat \<Rightarrow> mat \<Rightarrow> mat \<Rightarrow> mat" where
  "solve_scalar Rows A B = (\<lambda>r c. B r c / A 0 0)"

definition env_scalar :: ukf_env where
  "env_scalar =
     \<lparr>States = 1, Inputs = 1, Outputs = 1,
      pts_default = sigma_points_scalar,
      DiscretizeR = discretize_R_stub,
      NumericalJacobianX = jacobian_central,
      DiscretizeAQTaylor = discretize_first_order,
      RungeKutta = rk4,
      UnscentedTransform = (\<lambda>Rows. ut_weighted 3),
      ldlt_solve = solve_scalar\<rparr>"

text \<open>
  Modelled from the spec: the sigma-point generator is not part of the header. The
  specification gives it "two weight vectors (mean weights, covariance weights)", so
  the covariance weight of a point need not be its mean weight. Here the central
  point has mean weight \<open>0\<close> and covariance weight \<open>2\<close>; the points and the other
  weights are those of the scalar instance.
\<close>

definition sigma_points_beta :: MerweScaledSigmaPoints where
  "sigma_points_beta = sigma_points_scalar\<lparr>Wc := (\<lambda>i. if i = 0 then 2 else 1 / 2)\<rparr>"

definition env_beta :: ukf_env where
  "env_beta = env_scalar\<lparr>pts_default := sigma_points_beta\<rparr>"

section \<open>A two-state instance of the collaborators\<close>

text \<open>
  Modelled from the spec: the sigma-point generator is not part of the header. For two
  states, "a deterministic set of 2*States+1 sample vectors capturing the mean and
  covariance" is the mean together with the mean plus and minus \<open>sqrt 2\<close> times each
  column of the Cholesky factor of the covariance, with weights \<open>0\<close> and four times
  \<open>1/4\<close>.
\<close>

definition cholesky_two :: "mat \<Rightarrow> mat" where
  "cholesky_two P =
     (\<lambda>r c. if c = 0 then (if r = 0 then sqrt (P 0 0) else P 1 0 / sqrt (P 0 0))
            else if r = 0 then 0
            else sqrt (P 1 1 - P 1 0 * P 1 0 / P 0 0))"

definition sigma_points_two :: MerweScaledSigmaPoints where
  "sigma_points_two =
     \<lparr>SigmaPoints = (\<lambda>x P r i. if i = 0 then x r
                               else if i \<le> 2 then x r + sqrt 2 * cholesky_two P r (i - 1)
                               else x r - sqrt 2 * cholesky_two P r (i - 3)),
      Wm = (\<lambda>i. if i = 0 then 0 else 1 / 4),
      Wc = (\<lambda>i. if i = 0 then 0 else 1 / 4),
      NumSigmas = 5\<rparr>"

text \<open>
  Modelled from the spec: Eigen's \<open>ldlt().solve\<close> is not part of the header. For a two
  by two matrix \<open>A\<close> the solution of \<open>A X = B\<close> is given by Cramer's rule.
\<close>

definition solve_two :: "nat \<Rightarrow> mat \<Rightarrow> mat \<Rightarrow> mat" where
  "solve_two Rows A B =
     (let det = A 0 0 * A 1 1 - A 0 1 * A 1 0
      in (\<lambda>r c. if r = 0 then (A 1 1 * B 0 c - A 0 1 * B 1 c) / det
                 else (A 0 0 * B 1 c - A 1 0 * B 0 c) / det))"

definition env_two :: ukf_env where
  "env_two =
     \<lparr>States = 2, Inputs = 1, Outputs = 2,
      pts_default = sigma_points_two,
      DiscretizeR = discretize_R_stub,
      NumericalJacobianX = jacobian_central,
      DiscretizeAQTaylor = discretize_first_order,
      RungeKutta = rk4,
      UnscentedTransform = (\<lambda>Rows. ut_weighted 5),
      ldlt_solve = (\<lambda>Rows. if Rows = 1 then solve_scalar Rows else solve_two Rows)\<rparr>"

section \<open>Concrete filters\<close>

text \<open>
  The scalar scenario of the specification: \<open>f(x,u) = 0\<close>, \<open>h(x,u) = x\<close>, process
  noise deviation \<open>0\<close>, measurement noise deviation \<open>1\<close>, nominal step \<open>1\<close>, and the
  covariance set to \<open>4\<close> after construction; and its state after \<open>Predict(0, 1)\<close>.
\<close>

definition scenario_start :: UnscentedKalmanFilter where
  "scenario_start =
     SetP (\<lambda>r c. 4) (construct env_scalar (\<lambda>x u. vec_zero) (\<lambda>x u. x) [0] [1] 1)"

definition scenario_predicted :: UnscentedKalmanFilter where
  "scenario_predicted = Predict env_scalar vec_zero 1 scenario_start"

text \<open>
  A filter constructed with the generator above on which the estimate is set to \<open>1\<close>
  and the covariance to \<open>4\<close>, and on which \<open>Predict\<close> has not been called.
\<close>

definition preset_start :: UnscentedKalmanFilter where
  "preset_start =
     SetP (\<lambda>r c. 4)
       (SetXhat (\<lambda>r. 1) (construct env_beta (\<lambda>x u. vec_zero) (\<lambda>x u. x) [1] [1] 1))"

text \<open>The same filter with process noise deviation \<open>1\<close>.\<close>

definition static_noisy_start :: UnscentedKalmanFilter where
  "static_noisy_start =
     SetP (\<lambda>r c. 4) (construct env_scalar (\<lambda>x u. vec_zero) (\<lambda>x u. x) [1] [1] 1)"

text \<open>
  A stable system, \<open>f(x,u) = -x\<close>, with process noise deviation \<open>1\<close> and the covariance
  set to \<open>4\<close> after construction.
\<close>

definition decay_start :: UnscentedKalmanFilter where
  "decay_start =
     SetP (\<lambda>r c. 4) (construct env_scalar (\<lambda>x u. scal_vec (- 1) x) (\<lambda>x u. x) [1] [1] 1)"

text \<open>
  The second-order scenario of the specification, position and velocity with
  \<open>f(x,u) = [x2, u]\<close>, here with both states measured, unit noise deviations and a
  symmetric covariance set after construction.
\<close>

definition cart_start :: UnscentedKalmanFilter where
  "cart_start =
     SetP (\<lambda>r c. if r = c then 2 else 1)
       (construct env_two (\<lambda>x u r. if r = 0 then x 1 else u 0) (\<lambda>x u. x) [1, 1] [1, 1] 1)"

definition cart_history :: "ukf_op list" where
  "cart_history =
     [Op_Predict (\<lambda>r. 1) (1 / 50),
      Op_Correct (\<lambda>r. 1) (\<lambda>r. 0),
      Op_Correct_with 1 (\<lambda>r. 1) (\<lambda>r. 0) (\<lambda>x u r. x 0) (\<lambda>r c. 1)]"

section \<open>The loops in closed form\<close>

lemma Predict_loop_entry:
  "Predict_loop env f sigmas u dt n i sigmasF r c =
     (if i \<le> c \<and> c < n then RungeKutta env f (col sigmas c) u dt r else sigmasF r c)"
proof (induction env f sigmas u dt n i sigmasF rule: Predict_loop.induct)
  case (1 env f sigmas u dt n i sigmasF)
  show ?case
  proof (cases "i < n")
    case True
    then show ?thesis
      using "1.IH" [OF True] by (subst Predict_loop.simps) (auto simp: set_col_def)
  next
    case False
    then show ?thesis by (subst Predict_loop.simps) auto
  qed
qed

lemma sigmasH_loop_entry:
  "sigmasH_loop h sigmas u n i sigmasH r c =
     (if i \<le> c \<and> c < n then h (col sigmas c) u r else sigmasH r c)"
proof (induction h sigmas u n i sigmasH rule: sigmasH_loop.induct)
  case (1 h sigmas u n i sigmasH)
  show ?case
  proof (cases "i < n")
    case True
    then show ?thesis
      using "1.IH" [OF True] by (subst sigmasH_loop.simps) (auto simp: set_col_def)
  next
    case False
    then show ?thesis by (subst sigmasH_loop.simps) auto
  qed
qed

lemma Pxy_loop_entry:
  "Pxy_loop wc sigmasF xHat sigmasH yHat n i Pxy r c =
     Pxy r c + (\<Sum>k = i..<n. wc k * (sigmasF r k - xHat r) * (sigmasH c k - yHat c))"
proof (induction wc sigmasF xHat sigmasH yHat n i Pxy rule: Pxy_loop.induct)
  case (1 wc sigmasF xHat sigmasH yHat n i Pxy)
  show ?case
  proof (cases "i < n")
    case True
    then show ?thesis
      using "1.IH" [OF True]
      by (subst Pxy_loop.simps)
         (simp add: mat_add_def outer_def scal_vec_def vec_sub_def col_def
            sum.atLeast_Suc_lessThan)
  next
    case False
    then show ?thesis by (subst Pxy_loop.simps) auto
  qed
qed

lemma Predict_sigmasF:
  "m_sigmasF (Predict env u dt s) =
     (\<lambda>r i. if i < NumSigmas (m_pts s)
             then RungeKutta env (m_f s) (col (SigmaPoints (m_pts s) (m_xHat s) (m_P s)) i) u dt r
             else m_sigmasF s r i)"
  by (simp add: Predict_def Let_def split_def Predict_loop_entry fun_eq_iff)

lemma Correct_sigmasH_entry:
  "Correct_sigmasH u h s =
     (\<lambda>r i. if i < NumSigmas (m_pts s)
             then h (col (SigmaPoints (m_pts s) (m_xHat s) (m_P s)) i) u r
             else 0)"
  by (simp add: Correct_sigmasH_def Let_def sigmasH_loop_entry mat_zero_def fun_eq_iff)

lemma Correct_Pxy_sum:
  "Correct_Pxy env Rows u h s =
     (\<lambda>r c. \<Sum>i<NumSigmas (m_pts s).
        Wc (m_pts s) i * (m_sigmasF s r i - m_xHat s r)
          * (Correct_sigmasH u h s c i - Correct_yHat env Rows u h s c))"
  by (simp add: Correct_Pxy_def Pxy_loop_entry mat_zero_def atLeast0LessThan fun_eq_iff)

lemma apply_op_model:
  "m_f (apply_op env s a) = m_f s \<and> m_h (apply_op env s a) = m_h s
   \<and> m_contQ (apply_op env s a) = m_contQ s \<and> m_contR (apply_op env s a) = m_contR s
   \<and> m_pts (apply_op env s a) = m_pts s"
  by (cases a)
     (simp_all add: Predict_def Correct_def Correct_with_def SetP_def SetXhat_def
        SetXhat_at_def Reset_def Let_def split_def)

lemma run_snoc: "run env (ops @ [a]) s = apply_op env (run env ops s) a"
  by (simp add: run_def)

lemma run_Cons: "run env (a # ops) s = run env ops (apply_op env s a)"
  by (simp add: run_def)

lemma run_model:
  "m_f (run env ops s) = m_f s \<and> m_h (run env ops s) = m_h s
   \<and> m_contQ (run env ops s) = m_contQ s \<and> m_contR (run env ops s) = m_contR s
   \<and> m_pts (run env ops s) = m_pts s"
proof (induction ops rule: rev_induct)
  case Nil
  show ?case by (simp add: run_def)
next
  case (snoc a ops)
  then show ?case using apply_op_model [of env "run env ops s" a] by (simp add: run_snoc)
qed

lemma run_discR:
  "m_discR s = DiscretizeR env (m_contR s) d \<Longrightarrow>
   m_discR (run env ops s) = DiscretizeR env (m_contR s) (last_dt d ops)"
proof (induction ops arbitrary: s d)
  case Nil
  then show ?case by (simp add: run_def)
next
  case (Cons a ops)
  show ?case
  proof (cases a)
    case (Op_Predict u dt)
    have "m_discR (apply_op env s a) = DiscretizeR env (m_contR (apply_op env s a)) dt"
      using Op_Predict by (simp add: Predict_def Let_def split_def)
    from Cons.IH [OF this] show ?thesis
      using Op_Predict apply_op_model [of env s a] by (simp add: run_Cons)
  next
    case (Op_Correct u y)
    have "m_discR (apply_op env s a) = DiscretizeR env (m_contR (apply_op env s a)) d"
      using Op_Correct Cons.prems by (simp add: Correct_def Correct_with_def Let_def)
    from Cons.IH [OF this] show ?thesis
      using Op_Correct apply_op_model [of env s a] by (simp add: run_Cons)
  next
    case (Op_Correct_with Rows u y h R)
    have "m_discR (apply_op env s a) = DiscretizeR env (m_contR (apply_op env s a)) d"
      using Op_Correct_with Cons.prems by (simp add: Correct_with_def Let_def)
    from Cons.IH [OF this] show ?thesis
      using Op_Correct_with apply_op_model [of env s a] by (simp add: run_Cons)
  next
    case (Op_SetP P)
    have "m_discR (apply_op env s a) = DiscretizeR env (m_contR (apply_op env s a)) d"
      using Op_SetP Cons.prems by (simp add: SetP_def)
    from Cons.IH [OF this] show ?thesis
      using Op_SetP apply_op_model [of env s a] by (simp add: run_Cons)
  next
    case (Op_SetXhat x)
    have "m_discR (apply_op env s a) = DiscretizeR env (m_contR (apply_op env s a)) d"
      using Op_SetXhat Cons.prems by (simp add: SetXhat_def)
    from Cons.IH [OF this] show ?thesis
      using Op_SetXhat apply_op_model [of env s a] by (simp add: run_Cons)
  next
    case (Op_SetXhat_at i v)
    have "m_discR (apply_op env s a) = DiscretizeR env (m_contR (apply_op env s a)) d"
      using Op_SetXhat_at Cons.prems by (simp add: SetXhat_at_def)
    from Cons.IH [OF this] show ?thesis
      using Op_SetXhat_at apply_op_model [of env s a] by (simp add: run_Cons)
  next
    case Op_Reset
    have "m_discR (apply_op env s a) = DiscretizeR env (m_contR (apply_op env s a)) d"
      using Op_Reset Cons.prems by (simp add: Reset_def)
    from Cons.IH [OF this] show ?thesis
      using Op_Reset apply_op_model [of env s a] by (simp add: run_Cons)
  qed
qed

lemma construct_fields:
  "m_f (construct env f h sds mds dt0) = f"
  "m_h (construct env f h sds mds dt0) = h"
  "m_xHat (construct env f h sds mds dt0) = vec_zero"
  "m_P (construct env f h sds mds dt0) = mat_zero"
  "m_contQ (construct env f h sds mds dt0) = MakeCovMatrix sds"
  "m_contR (construct env f h sds mds dt0) = MakeCovMatrix mds"
  "m_discR (construct env f h sds mds dt0) = DiscretizeR env (MakeCovMatrix mds) dt0"
  "m_sigmasF (construct env f h sds mds dt0) = mat_zero"
  "m_pts (construct env f h sds mds dt0) = pts_default env"
  by (simp_all add: construct_def Reset_def Let_def)

lemma Predict_ignores_discR:
  "Predict env u dt (s\<lparr>m_discR := d\<rparr>) = Predict env u dt s"
  by (simp add: Predict_def Let_def split_def)

lemma apply_op_Predict_free:
  "Predict_free a \<Longrightarrow> m_sigmasF s = mat_zero \<Longrightarrow> m_sigmasF (apply_op env s a) = mat_zero"
  by (cases a)
     (simp_all add: Correct_def Correct_with_def SetP_def SetXhat_def SetXhat_at_def Reset_def
        Let_def)

lemma run_Predict_free:
  "list_all Predict_free ops \<Longrightarrow> m_sigmasF s = mat_zero
   \<Longrightarrow> m_sigmasF (run env ops s) = mat_zero"
proof (induction ops arbitrary: s)
  case Nil
  then show ?case by (simp add: run_def)
next
  case (Cons a ops)
  then show ?case by (simp add: run_Cons apply_op_Predict_free)
qed

section \<open>Evaluation of the scalar instance\<close>

lemma sum_lessThan_3: "(\<Sum>i<(3::nat). f i) = f 0 + f 1 + f 2"
  by (simp add: numeral_3_eq_3 numeral_2_eq_2)



lemma env_scalar_fields:
  "States env_scalar = 1" "Inputs env_scalar = 1" "Outputs env_scalar = 1"
  "pts_default env_scalar = sigma_points_scalar"
  "DiscretizeR env_scalar = discretize_R_stub"
  "NumericalJacobianX env_scalar = jacobian_central"
  "DiscretizeAQTaylor env_scalar = discretize_first_order"
  "RungeKutta env_scalar = rk4"
  "UnscentedTransform env_scalar = (\<lambda>Rows. ut_weighted 3)"
  "ldlt_solve env_scalar = solve_scalar"
  by (simp_all add: env_scalar_def)


section \<open>Matrix facts\<close>

lemma symmetric_add: "symmetric n A \<Longrightarrow> symmetric n B \<Longrightarrow> symmetric n (mat_add A B)"
  by (simp add: symmetric_def mat_add_def)

lemma symmetric_sub: "symmetric n A \<Longrightarrow> symmetric n B \<Longrightarrow> symmetric n (mat_sub A B)"
  by (simp add: symmetric_def mat_sub_def)

lemma congruence_entry:
  "mat_mul m (mat_mul m K S) (transpose_mat K) r c = (\<Sum>l<m. \<Sum>k<m. K r k * S k l * K c l)"
  by (simp add: mat_mul_def transpose_mat_def sum_distrib_right)

lemma symmetric_congruence:
  assumes "symmetric m S"
  shows "symmetric n (mat_mul m (mat_mul m K S) (transpose_mat K))"
proof -
  have "(\<Sum>l<m. \<Sum>k<m. K r k * S k l * K c l) = (\<Sum>l<m. \<Sum>k<m. K c k * S k l * K r l)" for r c
  proof -
    have "(\<Sum>l<m. \<Sum>k<m. K r k * S k l * K c l) = (\<Sum>k<m. \<Sum>l<m. K r k * S k l * K c l)"
      by (rule sum.swap)
    also have "\<dots> = (\<Sum>k<m. \<Sum>l<m. K c l * S l k * K r k)"
    proof (intro sum.cong refl)
      fix k l assume "k \<in> {..<m}" "l \<in> {..<m}"
      then have "S k l = S l k" using assms by (simp add: symmetric_def)
      then show "K r k * S k l * K c l = K c l * S l k * K r k" by simp
    qed
    finally show ?thesis .
  qed
  then show ?thesis by (simp add: symmetric_def congruence_entry)
qed

lemma Correct_with_symmetric:
  assumes "symmetric (States env) (m_P s)"
    and "symmetric Rows (Correct_Py env Rows u h R s)"
  shows "symmetric (States env) (m_P (Correct_with env Rows u y h R s))"
  using assms by (simp add: Correct_with_def Let_def symmetric_sub symmetric_congruence)

lemma Predict_m_P:
  "m_P (Predict env u dt s) =
     mat_add
       (snd (UnscentedTransform env (States env) (m_sigmasF (Predict env u dt s))
               (Wm (m_pts s)) (Wc (m_pts s))))
       (snd (DiscretizeAQTaylor env (NumericalJacobianX env (m_f s) (m_xHat s) u)
               (m_contQ s) dt))"
  by (simp add: Predict_def Let_def split_def)

lemma Predict_m_discR: "m_discR (Predict env u dt s) = DiscretizeR env (m_contR s) dt"
  by (simp add: Predict_def Let_def split_def)

lemma Correct_with_m_discR: "m_discR (Correct_with env Rows u y h R s) = m_discR s"
  by (simp add: Correct_with_def Let_def)

lemma Correct_with_m_xHat:
  "m_xHat (Correct_with env Rows u y h R s) =
     vec_add (m_xHat s)
       (mat_vec Rows (Correct_K env Rows u h R s) (vec_sub y (Correct_yHat env Rows u h s)))"
  by (simp add: Correct_with_def Let_def)

lemma Correct_with_m_P:
  "m_P (Correct_with env Rows u y h R s) =
     mat_sub (m_P s)
       (mat_mul Rows (mat_mul Rows (Correct_K env Rows u h R s) (Correct_Py env Rows u h R s))
          (transpose_mat (Correct_K env Rows u h R s)))"
  by (simp add: Correct_with_def Let_def)






lemma Pxy_without_cache:
  assumes "m_sigmasF t = mat_zero"
  shows "Correct_Pxy env Rows u h t =
     (\<lambda>r c. - m_xHat t r
        * (\<Sum>i<NumSigmas (m_pts t).
             Wc (m_pts t) i * (Correct_sigmasH u h t c i - Correct_yHat env Rows u h t c)))"
  by (simp add: Correct_Pxy_sum assms mat_zero_def sum_distrib_left algebra_simps
      sum_negf [symmetric])

lemma env_beta_fields:
  "States env_beta = 1" "pts_default env_beta = sigma_points_beta"
  "DiscretizeR env_beta = discretize_R_stub"
  "UnscentedTransform env_beta = (\<lambda>Rows. ut_weighted 3)"
  by (simp_all add: env_beta_def env_scalar_def)

lemma Predict_model:
  "m_f (Predict env u dt s) = m_f s" "m_h (Predict env u dt s) = m_h s"
  "m_contQ (Predict env u dt s) = m_contQ s" "m_contR (Predict env u dt s) = m_contR s"
  "m_pts (Predict env u dt s) = m_pts s"
  by (simp_all add: Predict_def Let_def split_def)

lemma Predict_trace:
  "trace n (m_P (Predict env u dt s)) =
     trace n (snd (UnscentedTransform env (States env) (m_sigmasF (Predict env u dt s))
                     (Wm (m_pts s)) (Wc (m_pts s))))
     + trace n (snd (DiscretizeAQTaylor env (NumericalJacobianX env (m_f s) (m_xHat s) u)
                       (m_contQ s) dt))"
  by (simp add: Predict_m_P trace_def mat_add_def sum.distrib)


section \<open>Properties of the operations\<close>

text \<open>
  Claim C7. Both forms of \<open>Correct\<close> write only \<open>m_xHat\<close> and \<open>m_P\<close>: the state after
  the call is the state before it with these two members replaced. In particular the
  cached sigma points \<open>m_sigmasF\<close> and \<open>m_contQ\<close>, \<open>m_contR\<close>, \<open>m_discR\<close>, \<open>m_f\<close>,
  \<open>m_h\<close> are unchanged, also after a second \<open>Correct\<close> of the same cycle.
\<close>

theorem Correct_writes_only_xHat_and_P:
  "Correct_with env Rows u y h R s =
     s\<lparr>m_xHat := m_xHat (Correct_with env Rows u y h R s),
       m_P := m_P (Correct_with env Rows u y h R s)\<rparr>
   \<and> Correct env u y s =
     s\<lparr>m_xHat := m_xHat (Correct env u y s), m_P := m_P (Correct env u y s)\<rparr>
   \<and> m_sigmasF (Correct_with env Rows u y h R s) = m_sigmasF s
   \<and> m_sigmasF (Correct env u y s) = m_sigmasF s
   \<and> m_sigmasF (Correct_with env Rows u y h R (Correct env u' y' s)) = m_sigmasF s
   \<and> m_contQ (Correct_with env Rows u y h R s) = m_contQ s
   \<and> m_contQ (Correct env u y s) = m_contQ s
   \<and> m_contR (Correct_with env Rows u y h R s) = m_contR s
   \<and> m_contR (Correct env u y s) = m_contR s
   \<and> m_discR (Correct_with env Rows u y h R s) = m_discR s
   \<and> m_discR (Correct env u y s) = m_discR s
   \<and> m_f (Correct_with env Rows u y h R s) = m_f s
   \<and> m_f (Correct env u y s) = m_f s
   \<and> m_h (Correct_with env Rows u y h R s) = m_h s
   \<and> m_h (Correct env u y s) = m_h s"
  by (simp add: Correct_def Correct_with_def Let_def)

text \<open>
  Claim C10. \<open>Reset\<close> leaves \<open>m_discR\<close> as it is: after \<open>Reset\<close> it is still the value
  discretised at the \<open>dt\<close> of the most recent \<open>Predict\<close>, or at the constructor's nominal
  \<open>dt\<close> when the history contains no \<open>Predict\<close>, and the two-argument \<open>Correct\<close> issued
  right after \<open>Reset\<close> passes that retained matrix to the generic form.
\<close>

theorem Reset_keeps_discR:
  "m_discR (Reset s) = m_discR s
   \<and> m_discR (Reset (Predict env u dt s)) = DiscretizeR env (m_contR s) dt
   \<and> m_discR (Reset (construct env f h sds mds dt0)) = DiscretizeR env (MakeCovMatrix mds) dt0
   \<and> m_discR (Reset (run env ops (construct env f h sds mds dt0)))
       = DiscretizeR env (MakeCovMatrix mds) (last_dt dt0 ops)
   \<and> Correct env u y (Reset s) = Correct_with env (Outputs env) u y (m_h s) (m_discR s) (Reset s)"
proof -
  have a: "m_discR (Reset s) = m_discR s" for s by (simp add: Reset_def)
  have b: "m_discR (Predict env u dt s) = DiscretizeR env (m_contR s) dt"
    by (simp add: Predict_def Let_def split_def)
  have c: "m_discR (run env ops (construct env f h sds mds dt0))
       = DiscretizeR env (MakeCovMatrix mds) (last_dt dt0 ops)"
    using run_discR [of "construct env f h sds mds dt0" env dt0 ops]
    by (simp add: construct_fields)
  have d: "Correct env u y (Reset s)
       = Correct_with env (Outputs env) u y (m_h s) (m_discR s) (Reset s)"
    by (simp add: Correct_def Reset_def)
  show ?thesis using a b c d by (simp add: construct_fields)
qed

text \<open>
  Claim C6. \<open>Reset\<close> sets \<open>m_xHat\<close>, \<open>m_P\<close> and \<open>m_sigmasF\<close> to zero and leaves
  \<open>m_contQ\<close>, \<open>m_contR\<close>, \<open>m_f\<close> and \<open>m_h\<close> unchanged. After any history of operations
  on a constructed filter, \<open>Reset\<close> followed by \<open>Predict(u, dt)\<close> gives the same state
  (so the same \<open>m_xHat\<close>, \<open>m_P\<close>, \<open>m_discR\<close> and \<open>m_sigmasF\<close>) as \<open>Predict(u, dt)\<close> on a
  filter freshly constructed with the same arguments.
\<close>

theorem Reset_then_Predict_as_fresh:
  "m_xHat (Reset s) = vec_zero \<and> m_P (Reset s) = mat_zero \<and> m_sigmasF (Reset s) = mat_zero
   \<and> m_contQ (Reset s) = m_contQ s \<and> m_contR (Reset s) = m_contR s
   \<and> m_f (Reset s) = m_f s \<and> m_h (Reset s) = m_h s
   \<and> Predict env u dt (Reset (run env ops (construct env f h sds mds dt0)))
       = Predict env u dt (construct env f h sds mds dt0)"
proof -
  let ?c = "construct env f h sds mds dt0"
  let ?s = "run env ops ?c"
  have "Reset ?s = ?c\<lparr>m_discR := m_discR ?s\<rparr>"
    using run_model [of env ops ?c]
    by (intro UnscentedKalmanFilter.equality) (simp_all add: Reset_def construct_fields)
  then have "Predict env u dt (Reset ?s) = Predict env u dt ?c"
    by (simp add: Predict_ignores_discR)
  then show ?thesis by (simp add: Reset_def)
qed

text \<open>
  Claim C8, as amended. On every filter on which \<open>Predict\<close> has not been called since
  construction or \<open>Reset\<close>, \<open>m_sigmasF\<close> is the zero matrix, and the cross covariance
  that a \<open>Correct\<close> call computes is \<open>- xHat * (\<Sum>i. Wc(i) * (yHat_i - yHat))\<^sup>T\<close>. It is
  the zero matrix whenever the estimate is zero, in particular on a filter that was
  just constructed or just reset, for every measurement function, input and size
  \<open>Rows\<close>.
\<close>

theorem Correct_before_Predict_Pxy:
  "m_sigmasF (Reset s) = mat_zero
   \<and> Correct_Pxy env Rows u h (Reset s) = mat_zero
   \<and> m_sigmasF (construct env f h0 sds mds dt0) = mat_zero
   \<and> Correct_Pxy env Rows u h (construct env f h0 sds mds dt0) = mat_zero
   \<and> (list_all Predict_free ops \<longrightarrow>
        m_sigmasF (run env ops (Reset s)) = mat_zero
        \<and> m_sigmasF (run env ops (construct env f h0 sds mds dt0)) = mat_zero)
   \<and> (list_all Predict_free ops \<longrightarrow> m_xHat (run env ops (Reset s)) = vec_zero \<longrightarrow>
        Correct_Pxy env Rows u h (run env ops (Reset s)) = mat_zero)
   \<and> (list_all Predict_free ops \<longrightarrow>
        Correct_Pxy env Rows u h (run env ops (Reset s)) =
          (\<lambda>r c. - m_xHat (run env ops (Reset s)) r
             * (\<Sum>i<NumSigmas (m_pts (run env ops (Reset s))).
                  Wc (m_pts (run env ops (Reset s))) i
                    * (h (col (SigmaPoints (m_pts (run env ops (Reset s)))
                                 (m_xHat (run env ops (Reset s)))
                                 (m_P (run env ops (Reset s)))) i) u c
                         - Correct_yHat env Rows u h (run env ops (Reset s)) c))))"
proof -
  have z: "m_sigmasF t = mat_zero \<Longrightarrow> m_xHat t = vec_zero
           \<Longrightarrow> Correct_Pxy env Rows u h t = mat_zero" for t
    by (simp add: Correct_Pxy_sum mat_zero_def vec_zero_def)
  have r: "m_sigmasF (Reset s) = mat_zero" "m_xHat (Reset s) = vec_zero"
    by (simp_all add: Reset_def)
  have c: "m_sigmasF (construct env f h0 sds mds dt0) = mat_zero"
    "m_xHat (construct env f h0 sds mds dt0) = vec_zero"
    by (simp_all add: construct_fields)
  have g: "Correct_Pxy env Rows u h t =
          (\<lambda>r c. - m_xHat t r
             * (\<Sum>i<NumSigmas (m_pts t).
                  Wc (m_pts t) i
                    * (h (col (SigmaPoints (m_pts t) (m_xHat t) (m_P t)) i) u c
                         - Correct_yHat env Rows u h t c)))"
    if "m_sigmasF t = mat_zero" for t
    using Pxy_without_cache [OF that, of env Rows u h]
    by (simp add: Correct_sigmasH_entry cong: sum.cong_simp)
  show ?thesis
    using z [OF r] z [OF c] r(1) c(1) z [of "run env ops (Reset s)"]
      g [of "run env ops (Reset s)"]
      run_Predict_free [of ops "Reset s" env]
      run_Predict_free [of ops "construct env f h0 sds mds dt0" env]
    by simp
qed

theorem Correct_before_Predict_Pxy_witness:
  "list_all Predict_free [Op_SetP (\<lambda>r c. 4)]
   \<and> m_xHat (run env_scalar [Op_SetP (\<lambda>r c. 4)] (Reset scenario_start)) = vec_zero
   \<and> m_sigmasF (run env_scalar [Op_SetP (\<lambda>r c. 4)] (Reset scenario_start)) = mat_zero
   \<and> Correct_Pxy env_scalar 1 vec_zero (\<lambda>x u. x)
         (run env_scalar [Op_SetP (\<lambda>r c. 4)] (Reset scenario_start)) = mat_zero"
  using Correct_before_Predict_Pxy
          [of scenario_start env_scalar 1 vec_zero "\<lambda>x u. x" "\<lambda>x u. vec_zero" "\<lambda>x u. x" "[]" "[]" 1
              "[Op_SetP (\<lambda>r c. 4)]"]
  by (simp add: run_def SetP_def Reset_def)

text \<open>
  With a non-zero estimate the cross covariance before any \<open>Predict\<close> need not be zero:
  after \<open>SetXhat(1)\<close> and \<open>SetP(4)\<close> on a constructed filter, with covariance weights
  \<open>2\<close>, \<open>1/2\<close>, \<open>1/2\<close> and \<open>h(x,u) = x * x\<close>, it is \<open>8\<close>.
\<close>

theorem Correct_before_Predict_Pxy_nonzero:
  "m_sigmasF preset_start = mat_zero
   \<and> Correct_Pxy env_beta 1 vec_zero (\<lambda>x u r. x r * x r) preset_start 0 0 = 8"
  by (simp add: Correct_Pxy_sum Correct_yHat_def Correct_sigmasH_entry preset_start_def
      SetP_def SetXhat_def construct_fields env_beta_fields sigma_points_beta_def
      sigma_points_scalar_def ut_weighted_def Let_def col_def mat_zero_def sum_lessThan_3)

text \<open>
  Claim C3. The cross covariance computed by \<open>Correct\<close> is the sum over the sigma points
  of \<open>Wc(i) * (Sf[i] - xHat) * (yHat_i - yHat)\<^sup>T\<close>, where \<open>Sf\<close> is the member
  \<open>m_sigmasF\<close> and \<open>yHat_i\<close> is the image under \<open>h\<close> of column \<open>i\<close> of the sigma points
  sampled from the current \<open>m_xHat\<close> and \<open>m_P\<close>. After a \<open>Predict\<close>, and still after a
  further \<open>Correct\<close> of the same cycle, \<open>Sf[i]\<close> is the point that this \<open>Predict\<close>
  integrated from the estimate and covariance it started from, not a point sampled
  from the current estimate.
\<close>

theorem Correct_Pxy_uses_Predict_cache:
  "Correct_Pxy env Rows u h s =
     (\<lambda>r c. \<Sum>i<NumSigmas (m_pts s).
        Wc (m_pts s) i * (m_sigmasF s r i - m_xHat s r)
          * (h (col (SigmaPoints (m_pts s) (m_xHat s) (m_P s)) i) u c
               - Correct_yHat env Rows u h s c))
   \<and> Correct_Pxy env Rows u h (Predict env u0 dt s0) =
     (\<lambda>r c. \<Sum>i<NumSigmas (m_pts s0).
        Wc (m_pts s0) i
          * (RungeKutta env (m_f s0) (col (SigmaPoints (m_pts s0) (m_xHat s0) (m_P s0)) i) u0 dt r
               - m_xHat (Predict env u0 dt s0) r)
          * (h (col (SigmaPoints (m_pts s0) (m_xHat (Predict env u0 dt s0))
                       (m_P (Predict env u0 dt s0))) i) u c
               - Correct_yHat env Rows u h (Predict env u0 dt s0) c))
   \<and> Correct_Pxy env Rows u h (Correct_with env Rows1 u1 y1 h1 R1 (Predict env u0 dt s0)) =
     (\<lambda>r c. \<Sum>i<NumSigmas (m_pts s0).
        Wc (m_pts s0) i
          * (RungeKutta env (m_f s0) (col (SigmaPoints (m_pts s0) (m_xHat s0) (m_P s0)) i) u0 dt r
               - m_xHat (Correct_with env Rows1 u1 y1 h1 R1 (Predict env u0 dt s0)) r)
          * (h (col (SigmaPoints (m_pts s0)
                       (m_xHat (Correct_with env Rows1 u1 y1 h1 R1 (Predict env u0 dt s0)))
                       (m_P (Correct_with env Rows1 u1 y1 h1 R1 (Predict env u0 dt s0)))) i) u c
               - Correct_yHat env Rows u h
                   (Correct_with env Rows1 u1 y1 h1 R1 (Predict env u0 dt s0)) c))"
proof -
  have gen: "Correct_Pxy env Rows u h s =
     (\<lambda>r c. \<Sum>i<NumSigmas (m_pts s).
        Wc (m_pts s) i * (m_sigmasF s r i - m_xHat s r)
          * (h (col (SigmaPoints (m_pts s) (m_xHat s) (m_P s)) i) u c
               - Correct_yHat env Rows u h s c))" for s
    by (simp add: Correct_Pxy_sum Correct_sigmasH_entry)
  have p: "m_pts (Predict env u0 dt s0) = m_pts s0"
    by (simp add: Predict_def Let_def split_def)
  have cp: "m_pts (Correct_with env Rows1 u1 y1 h1 R1 t) = m_pts t"
    and cs: "m_sigmasF (Correct_with env Rows1 u1 y1 h1 R1 t) = m_sigmasF t" for t
    by (simp_all add: Correct_with_def Let_def)
  show ?thesis
    unfolding gen [of "Predict env u0 dt s0"]
      gen [of "Correct_with env Rows1 u1 y1 h1 R1 (Predict env u0 dt s0)"] cp cs p
    using gen [of s] by (simp add: Predict_sigmasF cong: sum.cong_simp)
qed

text \<open>
  Claim C2. \<open>Predict(u, dt)\<close> samples sigma points from the current \<open>m_xHat\<close> and
  \<open>m_P\<close>, stores the integration of each column through \<open>f\<close> over \<open>dt\<close> in the
  corresponding column of \<open>m_sigmasF\<close>, sets \<open>m_xHat\<close> and \<open>m_P\<close> to the unscented
  transform of the new \<open>m_sigmasF\<close> under the generator's weights, adds to \<open>m_P\<close> the
  discretised process noise computed from the Jacobian of \<open>f\<close> at the old estimate,
  \<open>m_contQ\<close> and \<open>dt\<close>, and recomputes \<open>m_discR\<close> from \<open>m_contR\<close> at \<open>dt\<close>. This holds
  for every \<open>dt\<close>.
\<close>

theorem Predict_dataflow:
  "m_sigmasF (Predict env u dt s) =
     (\<lambda>r i. if i < NumSigmas (m_pts s)
             then RungeKutta env (m_f s) (col (SigmaPoints (m_pts s) (m_xHat s) (m_P s)) i) u dt r
             else m_sigmasF s r i)
   \<and> m_xHat (Predict env u dt s) =
       fst (UnscentedTransform env (States env) (m_sigmasF (Predict env u dt s))
              (Wm (m_pts s)) (Wc (m_pts s)))
   \<and> m_P (Predict env u dt s) =
       mat_add
         (snd (UnscentedTransform env (States env) (m_sigmasF (Predict env u dt s))
                 (Wm (m_pts s)) (Wc (m_pts s))))
         (snd (DiscretizeAQTaylor env (NumericalJacobianX env (m_f s) (m_xHat s) u)
                 (m_contQ s) dt))
   \<and> m_discR (Predict env u dt s) = DiscretizeR env (m_contR s) dt"
proof -
  have "m_sigmasF (Predict env u dt s) =
     Predict_loop env (m_f s) (SigmaPoints (m_pts s) (m_xHat s) (m_P s)) u dt
       (NumSigmas (m_pts s)) 0 (m_sigmasF s)"
    by (simp add: Predict_def Let_def split_def)
  then show ?thesis
    by (simp add: Predict_sigmasF [symmetric]) (simp add: Predict_def Let_def split_def)
qed







text \<open>
  Claim C4. Scalar scenario: one state, \<open>f(x,u) = 0\<close>, \<open>h(x,u) = x\<close>, process noise
  deviation \<open>0\<close>, \<open>xHat = 0\<close> and \<open>P = 4\<close>. \<open>Predict(u, 1)\<close> leaves \<open>xHat = 0\<close> and \<open>P = 4\<close>,
  and \<open>Correct(u, y = 2, h, R = 1)\<close> after it has gain \<open>K = 4/5\<close> and yields \<open>xHat = 8/5\<close>
  and \<open>P = 4/5\<close>. The collaborators are arbitrary up to their contracts: the integrator
  returns its argument when the derivative is zero, the discretised process noise of a
  zero \<open>Qc\<close> is zero, the unscented transform is the weighted mean and covariance, the
  sigma points for mean \<open>0\<close> and covariance \<open>4\<close> have weighted mean \<open>0\<close> and weighted
  covariance \<open>4\<close>, and the solver divides in the one by one case.
\<close>

theorem scalar_scenario:
  fixes sg :: "nat \<Rightarrow> real"
  assumes f: "m_f s = (\<lambda>x u. vec_zero)"
    and Q: "m_contQ s = MakeCovMatrix [0]"
    and x0: "m_xHat s 0 = 0"
    and P0: "m_P s 0 0 = 4"
    and n: "States env = 1"
    and RK: "\<forall>x. RungeKutta env (\<lambda>x u. vec_zero) x u 1 0 = x 0"
    and Qd: "\<forall>A. snd (DiscretizeAQTaylor env A (MakeCovMatrix [0]) 1) 0 0 = 0"
    and UT: "\<forall>sigmas.
        fst (UnscentedTransform env 1 sigmas (Wm (m_pts s)) (Wc (m_pts s))) 0
          = (\<Sum>i<NumSigmas (m_pts s). Wm (m_pts s) i * sigmas 0 i)
        \<and> snd (UnscentedTransform env 1 sigmas (Wm (m_pts s)) (Wc (m_pts s))) 0 0
          = (\<Sum>i<NumSigmas (m_pts s). Wc (m_pts s) i
               * (sigmas 0 i - fst (UnscentedTransform env 1 sigmas (Wm (m_pts s)) (Wc (m_pts s))) 0)
               * (sigmas 0 i - fst (UnscentedTransform env 1 sigmas (Wm (m_pts s)) (Wc (m_pts s))) 0))"
    and SP: "\<forall>x P. x 0 = 0 \<longrightarrow> P 0 0 = 4 \<longrightarrow>
               (\<forall>i<NumSigmas (m_pts s). SigmaPoints (m_pts s) x P 0 i = sg i)"
    and SPm: "(\<Sum>i<NumSigmas (m_pts s). Wm (m_pts s) i * sg i) = 0"
    and SPc: "(\<Sum>i<NumSigmas (m_pts s). Wc (m_pts s) i * sg i * sg i) = 4"
    and solve: "\<forall>A B. A 0 0 \<noteq> 0 \<longrightarrow> ldlt_solve env 1 A B 0 0 = B 0 0 / A 0 0"
    and h: "h = (\<lambda>x u. x)"
    and y: "y 0 = 2"
    and R: "R 0 0 = 1"
  shows "m_xHat (Predict env u 1 s) 0 = 0
    \<and> m_P (Predict env u 1 s) 0 0 = 4
    \<and> Correct_K env 1 u h R (Predict env u 1 s) 0 0 = 4 / 5
    \<and> m_xHat (Correct_with env 1 u y h R (Predict env u 1 s)) 0 = 8 / 5
    \<and> m_P (Correct_with env 1 u y h R (Predict env u 1 s)) 0 0 = 4 / 5"
proof -
  let ?N = "NumSigmas (m_pts s)"
  let ?p = "Predict env u 1 s"
  have pts: "m_pts ?p = m_pts s" by (simp add: Predict_def Let_def split_def)
  have Sf: "m_sigmasF ?p 0 i = sg i" if "i < ?N" for i
    using that SP x0 P0 RK by (simp add: Predict_sigmasF f col_def)
  have x1: "m_xHat ?p 0 = 0"
  proof -
    have "m_xHat ?p 0 = (\<Sum>i<?N. Wm (m_pts s) i * m_sigmasF ?p 0 i)"
      using UT by (simp add: Predict_def Let_def split_def n del: One_nat_def)
    also have "\<dots> = (\<Sum>i<?N. Wm (m_pts s) i * sg i)"
      by (intro sum.cong refl) (simp add: Sf)
    finally show ?thesis using SPm by simp
  qed
  have P1: "m_P ?p 0 0 = 4"
  proof -
    have "m_P ?p 0 0 = (\<Sum>i<?N. Wc (m_pts s) i * (m_sigmasF ?p 0 i - m_xHat ?p 0)
                          * (m_sigmasF ?p 0 i - m_xHat ?p 0))
                       + snd (DiscretizeAQTaylor env (NumericalJacobianX env (m_f s) (m_xHat s) u)
                               (m_contQ s) 1) 0 0"
      using UT by (simp add: Predict_def Let_def split_def n mat_add_def del: One_nat_def)
    also have "(\<Sum>i<?N. Wc (m_pts s) i * (m_sigmasF ?p 0 i - m_xHat ?p 0)
                          * (m_sigmasF ?p 0 i - m_xHat ?p 0))
               = (\<Sum>i<?N. Wc (m_pts s) i * sg i * sg i)"
      by (intro sum.cong refl) (simp add: Sf x1)
    finally show ?thesis using SPc Qd by (simp add: Q)
  qed
  have sH: "Correct_sigmasH u h ?p 0 i = sg i" if "i < ?N" for i
    using that SP x1 P1 by (simp add: Correct_sigmasH_entry pts h col_def)
  have yH: "Correct_yHat env 1 u h ?p 0 = 0"
  proof -
    have "Correct_yHat env 1 u h ?p 0 = (\<Sum>i<?N. Wm (m_pts s) i * Correct_sigmasH u h ?p 0 i)"
      using UT by (simp add: Correct_yHat_def pts del: One_nat_def)
    also have "\<dots> = (\<Sum>i<?N. Wm (m_pts s) i * sg i)"
      by (intro sum.cong refl) (simp add: sH)
    finally show ?thesis using SPm by simp
  qed
  have Py: "Correct_Py env 1 u h R ?p 0 0 = 5"
  proof -
    have "Correct_Py env 1 u h R ?p 0 0
          = (\<Sum>i<?N. Wc (m_pts s) i * (Correct_sigmasH u h ?p 0 i - Correct_yHat env 1 u h ?p 0)
                          * (Correct_sigmasH u h ?p 0 i - Correct_yHat env 1 u h ?p 0)) + R 0 0"
      using UT by (simp add: Correct_Py_def Correct_yHat_def pts mat_add_def del: One_nat_def)
    also have "(\<Sum>i<?N. Wc (m_pts s) i * (Correct_sigmasH u h ?p 0 i - Correct_yHat env 1 u h ?p 0)
                          * (Correct_sigmasH u h ?p 0 i - Correct_yHat env 1 u h ?p 0))
               = (\<Sum>i<?N. Wc (m_pts s) i * sg i * sg i)"
      by (intro sum.cong refl) (simp add: sH yH del: One_nat_def)
    finally show ?thesis using SPc R by simp
  qed
  have Pxy: "Correct_Pxy env 1 u h ?p 0 0 = 4"
  proof -
    have "Correct_Pxy env 1 u h ?p 0 0
          = (\<Sum>i<?N. Wc (m_pts s) i * (m_sigmasF ?p 0 i - m_xHat ?p 0)
                          * (Correct_sigmasH u h ?p 0 i - Correct_yHat env 1 u h ?p 0))"
      by (simp add: Correct_Pxy_sum pts del: One_nat_def)
    also have "\<dots> = (\<Sum>i<?N. Wc (m_pts s) i * sg i * sg i)"
      by (intro sum.cong refl) (simp add: sH yH Sf x1 del: One_nat_def)
    finally show ?thesis using SPc by simp
  qed
  have K: "Correct_K env 1 u h R ?p 0 0 = 4 / 5"
    using solve Py Pxy by (simp add: Correct_K_def transpose_mat_def del: One_nat_def)
  have x2: "m_xHat (Correct_with env 1 u y h R ?p) 0 = 8 / 5"
    by (simp add: Correct_with_m_xHat vec_add_def mat_vec_def vec_sub_def K yH x1 y
        del: One_nat_def)
  have P2: "m_P (Correct_with env 1 u y h R ?p) 0 0 = 4 / 5"
    by (simp add: Correct_with_m_P mat_sub_def mat_mul_def transpose_mat_def K Py P1
        del: One_nat_def)
  show ?thesis using x1 P1 K x2 P2 by simp
qed

theorem scalar_scenario_witness:
  "m_xHat scenario_predicted 0 = 0
    \<and> m_P scenario_predicted 0 0 = 4
    \<and> Correct_K env_scalar 1 vec_zero (\<lambda>x u. x) (\<lambda>r c. 1) scenario_predicted 0 0
        = 4 / 5
    \<and> m_xHat (Correct_with env_scalar 1 vec_zero (\<lambda>r. 2) (\<lambda>x u. x) (\<lambda>r c. 1)
         scenario_predicted) 0 = 8 / 5
    \<and> m_P (Correct_with env_scalar 1 vec_zero (\<lambda>r. 2) (\<lambda>x u. x) (\<lambda>r c. 1)
         scenario_predicted) 0 0 = 4 / 5"
proof -
  have st: "m_f scenario_start = (\<lambda>x u. vec_zero)" "m_contQ scenario_start = MakeCovMatrix [0]"
    "m_xHat scenario_start 0 = 0" "m_P scenario_start 0 0 = 4" "m_pts scenario_start = sigma_points_scalar"
    by (simp_all add: scenario_start_def SetP_def construct_fields env_scalar_fields vec_zero_def)
  have RK: "\<forall>x. RungeKutta env_scalar (\<lambda>x u. vec_zero) x vec_zero 1 0 = x 0"
    by (simp add: env_scalar_fields rk4_def Let_def vec_zero_def vec_add_def scal_vec_def)
  have Qd: "\<forall>A. snd (DiscretizeAQTaylor env_scalar A (MakeCovMatrix [0]) 1) 0 0 = 0"
    by (simp add: env_scalar_fields discretize_first_order_def MakeCovMatrix_def)
  have UT: "\<forall>sigmas.
        fst (UnscentedTransform env_scalar 1 sigmas (Wm (m_pts scenario_start)) (Wc (m_pts scenario_start))) 0
          = (\<Sum>i<NumSigmas (m_pts scenario_start). Wm (m_pts scenario_start) i * sigmas 0 i)
        \<and> snd (UnscentedTransform env_scalar 1 sigmas (Wm (m_pts scenario_start)) (Wc (m_pts scenario_start))) 0 0
          = (\<Sum>i<NumSigmas (m_pts scenario_start). Wc (m_pts scenario_start) i
               * (sigmas 0 i - fst (UnscentedTransform env_scalar 1 sigmas (Wm (m_pts scenario_start)) (Wc (m_pts scenario_start))) 0)
               * (sigmas 0 i - fst (UnscentedTransform env_scalar 1 sigmas (Wm (m_pts scenario_start)) (Wc (m_pts scenario_start))) 0))"
    by (simp add: st env_scalar_fields ut_weighted_def Let_def sigma_points_scalar_def)
  have SP: "\<forall>x P. x 0 = 0 \<longrightarrow> P 0 0 = 4 \<longrightarrow>
               (\<forall>i<NumSigmas (m_pts scenario_start).
                  SigmaPoints (m_pts scenario_start) x P 0 i = (if i = 0 then 0 else if i = 1 then 2 else - 2))"
    by (simp add: st sigma_points_scalar_def)
  have SPm: "(\<Sum>i<NumSigmas (m_pts scenario_start).
               Wm (m_pts scenario_start) i * (if i = 0 then 0 else if i = 1 then 2 else - 2)) = 0"
    by (simp add: st sigma_points_scalar_def sum_lessThan_3)
  have SPc: "(\<Sum>i<NumSigmas (m_pts scenario_start).
               Wc (m_pts scenario_start) i * (if i = 0 then 0 else if i = 1 then 2 else - 2)
                 * (if i = 0 then 0 else if i = 1 then 2 else - 2)) = 4"
    by (simp add: st sigma_points_scalar_def sum_lessThan_3)
  have solve: "\<forall>A B. A 0 0 \<noteq> 0 \<longrightarrow> ldlt_solve env_scalar 1 A B 0 0 = B 0 0 / A 0 0"
    by (simp add: env_scalar_fields solve_scalar_def)
  show ?thesis
    unfolding scenario_predicted_def
    by (rule scalar_scenario [OF st(1) st(2) st(3) st(4) env_scalar_fields(1) RK Qd UT SP SPm SPc
          solve refl refl refl])
qed

text \<open>
  Claim C5. If \<open>m_P\<close> and \<open>m_discR\<close> are symmetric, the unscented transform returns
  symmetric covariances, the discretised process and measurement noise matrices of the
  filter are symmetric and every measurement noise matrix handed to the generic
  \<open>Correct\<close> is symmetric, then \<open>m_P\<close> is symmetric after every finite history of
  \<open>Predict\<close> and \<open>Correct\<close> calls.
\<close>

theorem P_stays_symmetric:
  assumes P0: "symmetric (States env) (m_P s)"
    and R0: "symmetric (Outputs env) (m_discR s)"
    and UT: "\<forall>Rows sigmas wm wc. symmetric Rows (snd (UnscentedTransform env Rows sigmas wm wc))"
    and Qd: "\<forall>A dt. symmetric (States env) (snd (DiscretizeAQTaylor env A (m_contQ s) dt))"
    and Rd: "\<forall>dt. symmetric (Outputs env) (DiscretizeR env (m_contR s) dt)"
    and ops: "list_all Predict_Correct_op ops"
  shows "symmetric (States env) (m_P (run env ops s))"
proof -
  have "symmetric (States env) (m_P (run env ops s))
        \<and> symmetric (Outputs env) (m_discR (run env ops s))"
    using ops
  proof (induction ops rule: rev_induct)
    case Nil
    show ?case using P0 R0 by (simp add: run_def)
  next
    case (snoc a ops)
    let ?t = "run env ops s"
    from snoc have IH: "symmetric (States env) (m_P ?t)" "symmetric (Outputs env) (m_discR ?t)"
      and a: "Predict_Correct_op a" by simp_all
    have model: "m_contQ ?t = m_contQ s" "m_contR ?t = m_contR s"
      using run_model [of env ops s] by simp_all
    have "symmetric (States env) (m_P (apply_op env ?t a))
          \<and> symmetric (Outputs env) (m_discR (apply_op env ?t a))"
    proof (cases a)
      case (Op_Predict u dt)
      then show ?thesis
        using UT Qd Rd by (simp add: Predict_m_P Predict_m_discR model symmetric_add)
    next
      case (Op_Correct u y)
      have "symmetric (Outputs env) (Correct_Py env (Outputs env) u (m_h ?t) (m_discR ?t) ?t)"
        using UT IH(2) by (simp add: Correct_Py_def symmetric_add)
      then show ?thesis
        using Op_Correct IH
        by (simp add: Correct_def Correct_with_symmetric Correct_with_m_discR)
    next
      case (Op_Correct_with Rows u y h R)
      then have "symmetric Rows R" using a by simp
      then have "symmetric Rows (Correct_Py env Rows u h R ?t)"
        using UT by (simp add: Correct_Py_def symmetric_add)
      then show ?thesis
        using Op_Correct_with IH by (simp add: Correct_with_symmetric Correct_with_m_discR)
    qed (use a in simp_all)
    then show ?case by (simp add: run_snoc)
  qed
  then show ?thesis by simp
qed

lemma ut_weighted_symmetric: "symmetric Rows (snd (ut_weighted n sigmas wm wc))"
  by (simp add: symmetric_def ut_weighted_def Let_def mult.commute mult.left_commute)

lemma MakeCovMatrix_symmetric: "symmetric n (MakeCovMatrix stdDevs)"
  by (simp add: symmetric_def MakeCovMatrix_def)

lemma env_two_fields:
  "States env_two = 2" "Outputs env_two = 2"
  "DiscretizeR env_two = discretize_R_stub"
  "DiscretizeAQTaylor env_two = discretize_first_order"
  "UnscentedTransform env_two = (\<lambda>Rows. ut_weighted 5)"
  by (simp_all add: env_two_def)

lemma cart_start_fields:
  "m_P cart_start = (\<lambda>r c. if r = c then 2 else 1)"
  "m_contQ cart_start = MakeCovMatrix [1, 1]"
  "m_contR cart_start = MakeCovMatrix [1, 1]"
  "m_discR cart_start = MakeCovMatrix [1, 1]"
  by (simp_all add: cart_start_def SetP_def construct_fields env_two_fields
      discretize_R_stub_def)

theorem P_stays_symmetric_witness:
  "symmetric (States env_two) (m_P cart_start)
   \<and> list_all Predict_Correct_op cart_history
   \<and> symmetric (States env_two) (m_P (run env_two cart_history cart_start))"
proof -
  have h1: "symmetric (States env_two) (m_P cart_start)"
    by (simp add: cart_start_fields symmetric_def)
  have h2: "symmetric (Outputs env_two) (m_discR cart_start)"
    by (simp add: cart_start_fields MakeCovMatrix_symmetric)
  have h3: "\<forall>Rows sigmas wm wc.
              symmetric Rows (snd (UnscentedTransform env_two Rows sigmas wm wc))"
    by (simp add: env_two_fields ut_weighted_symmetric)
  have "symmetric n (\<lambda>r c. MakeCovMatrix [1, 1] r c * dt)" for n dt
    using MakeCovMatrix_symmetric [of n "[1, 1]"] by (simp add: symmetric_def)
  then have h4: "\<forall>A dt. symmetric (States env_two)
               (snd (DiscretizeAQTaylor env_two A (m_contQ cart_start) dt))"
    by (simp add: env_two_fields cart_start_fields discretize_first_order_def)
  have h5: "\<forall>dt. symmetric (Outputs env_two) (DiscretizeR env_two (m_contR cart_start) dt)"
    by (simp add: env_two_fields cart_start_fields discretize_R_stub_def
        MakeCovMatrix_symmetric)
  have ops: "list_all Predict_Correct_op cart_history"
    by (simp add: cart_history_def symmetric_def)
  from h1 ops P_stays_symmetric [OF h1 h2 h3 h4 h5 ops] show ?thesis by blast
qed

text \<open>
  Claim C9, as amended. After \<open>Predict\<close> the trace of \<open>m_P\<close> is the trace of the
  unscented-transform covariance of the propagated sigma points plus the trace of the
  discretised process noise. So the trace of \<open>m_P\<close> does not decrease over a \<open>Predict\<close>
  whose discretised process noise has a non-negative trace and whose propagated
  sigma-point covariance has a trace not below that of the previous \<open>m_P\<close>.
\<close>

theorem Predict_trace_not_decreasing:
  assumes "0 \<le> trace (States env)
                 (snd (DiscretizeAQTaylor env (NumericalJacobianX env (m_f s) (m_xHat s) u)
                         (m_contQ s) dt))"
    and "trace (States env) (m_P s)
           \<le> trace (States env)
                (snd (UnscentedTransform env (States env) (m_sigmasF (Predict env u dt s))
                        (Wm (m_pts s)) (Wc (m_pts s))))"
  shows "trace (States env) (m_P (Predict env u dt s)) =
           trace (States env)
             (snd (UnscentedTransform env (States env) (m_sigmasF (Predict env u dt s))
                     (Wm (m_pts s)) (Wc (m_pts s))))
           + trace (States env)
               (snd (DiscretizeAQTaylor env (NumericalJacobianX env (m_f s) (m_xHat s) u)
                       (m_contQ s) dt))
         \<and> trace (States env) (m_P s) \<le> trace (States env) (m_P (Predict env u dt s))"
  using assms by (simp add: Predict_trace)

lemma static_noisy_Predict:
  "trace 1 (m_P static_noisy_start) = 4"
  "trace 1 (snd (UnscentedTransform env_scalar 1 (m_sigmasF (Predict env_scalar vec_zero 1 static_noisy_start))
                   (Wm (m_pts static_noisy_start)) (Wc (m_pts static_noisy_start)))) = 4"
  "trace 1 (snd (DiscretizeAQTaylor env_scalar
                   (NumericalJacobianX env_scalar (m_f static_noisy_start) (m_xHat static_noisy_start) vec_zero)
                   (m_contQ static_noisy_start) 1)) = 1"
  by (simp_all add: static_noisy_start_def SetP_def construct_fields env_scalar_fields trace_def
      Predict_sigmasF rk4_def Let_def vec_zero_def vec_add_def scal_vec_def col_def
      ut_weighted_def sigma_points_scalar_def sum_lessThan_3 discretize_first_order_def
      MakeCovMatrix_def)

theorem Predict_trace_not_decreasing_witness:
  "trace (States env_scalar) (m_P static_noisy_start) = 4
   \<and> trace (States env_scalar) (m_P (Predict env_scalar vec_zero 1 static_noisy_start)) = 5
   \<and> trace (States env_scalar) (m_P static_noisy_start)
       \<le> trace (States env_scalar) (m_P (Predict env_scalar vec_zero 1 static_noisy_start))"
  using Predict_trace_not_decreasing [of env_scalar static_noisy_start vec_zero 1]
  by (simp add: env_scalar_fields(1) static_noisy_Predict del: One_nat_def)

lemma decay_rk4: "rk4 (\<lambda>x u. scal_vec (- 1) x) x u 1 r = 3 / 8 * x r"
  by (simp add: rk4_def Let_def scal_vec_def vec_add_def)

lemma decay_Predict:
  assumes "m_f s = (\<lambda>x u. scal_vec (- 1) x)" "m_pts s = sigma_points_scalar"
    "m_contQ s = MakeCovMatrix [1]"
  shows "m_xHat (Predict env_scalar u 1 s) 0 = 3 / 8 * m_xHat s 0"
    and "m_P (Predict env_scalar u 1 s) 0 0 = 9 / 64 * \<bar>m_P s 0 0\<bar> + 1"
proof -
  show x: "m_xHat (Predict env_scalar u 1 s) 0 = 3 / 8 * m_xHat s 0"
    by (simp add: Predict_def Let_def split_def Predict_loop_entry assms env_scalar_fields
        decay_rk4 ut_weighted_def sigma_points_scalar_def sum_lessThan_3 col_def
        add_divide_distrib diff_divide_distrib)
  define q where "q = sqrt (m_P s 0 0)"
  have qq: "q * q = \<bar>m_P s 0 0\<bar>" by (simp add: q_def)
  have "m_P (Predict env_scalar u 1 s) 0 0 =
        1 / 2 * ((3 / 8 * (m_xHat s 0 + q) - 3 / 8 * m_xHat s 0)
                 * (3 / 8 * (m_xHat s 0 + q) - 3 / 8 * m_xHat s 0))
        + 1 / 2 * ((3 / 8 * (m_xHat s 0 - q) - 3 / 8 * m_xHat s 0)
                   * (3 / 8 * (m_xHat s 0 - q) - 3 / 8 * m_xHat s 0))
        + 1"
    by (simp add: Predict_m_P Predict_sigmasF assms env_scalar_fields
        decay_rk4 ut_weighted_def sigma_points_scalar_def sum_lessThan_3 col_def
        discretize_first_order_def MakeCovMatrix_def mat_add_def q_def
        add_divide_distrib diff_divide_distrib)
  also have "\<dots> = 9 / 64 * (q * q) + 1"
    by algebra
  finally show "m_P (Predict env_scalar u 1 s) 0 0 = 9 / 64 * \<bar>m_P s 0 0\<bar> + 1"
    by (simp add: qq)
qed

lemma decay_start_fields:
  "m_f decay_start = (\<lambda>x u. scal_vec (- 1) x)" "m_pts decay_start = sigma_points_scalar"
  "m_contQ decay_start = MakeCovMatrix [1]" "m_P decay_start 0 0 = 4"
  by (simp_all add: decay_start_def SetP_def construct_fields env_scalar_fields)

text \<open>
  Without the hypothesis on the propagated covariance the trace can decrease from one
  \<open>Predict\<close> to the next, although the process noise deviation is positive: for the
  stable system \<open>f(x,u) = -x\<close> started at \<open>P = 4\<close>, two calls \<open>Predict(0, 1)\<close> give the
  traces \<open>25/16\<close> and then \<open>1249/1024\<close>.
\<close>

theorem Predict_trace_decreases:
  "trace 1 (m_P decay_start) = 4
   \<and> trace 1 (m_P (Predict env_scalar vec_zero 1 decay_start)) = 25 / 16
   \<and> trace 1 (m_P (Predict env_scalar vec_zero 1 (Predict env_scalar vec_zero 1 decay_start)))
       = 1249 / 1024
   \<and> trace 1 (m_P (Predict env_scalar vec_zero 1 (Predict env_scalar vec_zero 1 decay_start)))
       < trace 1 (m_P (Predict env_scalar vec_zero 1 decay_start))"
proof -
  have P1: "m_P (Predict env_scalar vec_zero 1 decay_start) 0 0 = 25 / 16"
    by (simp add: decay_Predict(2) decay_start_fields)
  have "m_P (Predict env_scalar vec_zero 1 (Predict env_scalar vec_zero 1 decay_start)) 0 0
        = 9 / 64 * \<bar>m_P (Predict env_scalar vec_zero 1 decay_start) 0 0\<bar> + 1"
    by (rule decay_Predict(2)) (simp_all add: Predict_model decay_start_fields)
  then have P2: "m_P (Predict env_scalar vec_zero 1 (Predict env_scalar vec_zero 1 decay_start)) 0 0
        = 1249 / 1024"
    by (simp add: P1)
  show ?thesis by (simp add: trace_def P1 P2 decay_start_fields)
qed

end
